theory Spec2Isabelle
  imports Main
begin

section \<open>Calendar automation: free-time calculator and session allocator\<close>

text \<open>
  A shallow embedding of \<^verbatim>\<open>src/main.py\<close>: the function \<^verbatim>\<open>get_free_time\<close> (the free-time
  calculator) and the function \<^verbatim>\<open>schedule_study_sessions\<close> (the session allocator).

  What lies outside the repository is a parameter of the model:
  \<^item> the clock: \<^verbatim>\<open>datetime.datetime.now(tz)\<close> is read once by the calculator (\<open>now\<close>) and
    once in every iteration of the allocator's loop over the days (\<open>nows day_index\<close>);
  \<^item> \<^verbatim>\<open>dateutil.parser.isoparse\<close>, a function from strings to naive or aware datetimes that
    raises \<^verbatim>\<open>ValueError\<close> (here: returns \<open>None\<close>) on a string it cannot read;
  \<^item> \<^verbatim>\<open>tz.localize\<close> of pytz, which attaches to a naive datetime the UTC offset the zone
    has at that local time (\<open>tz\<close> gives that offset);
  \<^item> the events returned by \<^verbatim>\<open>get_events\<close> (the list \<open>events\<close>), and the calendar writer:
    \<^verbatim>\<open>add_event\<close> catches the writer's \<^verbatim>\<open>HttpError\<close>, so the allocator's behaviour is the
    sequence of requests it hands to \<^verbatim>\<open>add_event\<close>.

  Dates are day ordinals (\<^verbatim>\<open>date.toordinal()\<close>) without the upper limit of Python's year
  9999; times are exact to the microsecond, as Python's are.
\<close>

subsection \<open>Datetimes and timedeltas\<close>

record naive_datetime =
  ordinal :: int
  hour :: nat
  minute :: nat
  second :: nat
  microsecond :: nat

text \<open>An aware datetime carries the UTC offset of its \<^verbatim>\<open>tzinfo\<close>, in microseconds.\<close>

record datetime = naive_datetime +
  utcoffset :: int

text \<open>A \<^verbatim>\<open>timedelta\<close> is a number of microseconds.\<close>

type_synonym timedelta = int

definition timedelta_minutes :: "int \<Rightarrow> timedelta" where
  "timedelta_minutes n = n * 60000000"

definition timedelta_days :: "int \<Rightarrow> timedelta" where
  "timedelta_days n = n * 86400000000"

definition micros_of_day :: "'a naive_datetime_scheme \<Rightarrow> int" where
  "micros_of_day d =
     ((int (hour d) * 60 + int (minute d)) * 60 + int (second d)) * 1000000
       + int (microsecond d)"

text \<open>
  \<^verbatim>\<open>d + delta\<close>: wall-clock arithmetic on the date and the time of day; the \<^verbatim>\<open>tzinfo\<close> is
  kept as it is.
\<close>

definition add_timedelta :: "datetime \<Rightarrow> timedelta \<Rightarrow> datetime" where
  "add_timedelta d delta =
     (let t = micros_of_day d + delta;
          r = t mod 86400000000
      in d\<lparr>ordinal := ordinal d + t div 86400000000,
            hour := nat (r div 3600000000),
            minute := nat ((r div 60000000) mod 60),
            second := nat ((r div 1000000) mod 60),
            microsecond := nat (r mod 1000000)\<rparr>)"

text \<open>
  Aware datetimes are compared by their UTC instants (for two datetimes with the same
  \<^verbatim>\<open>tzinfo\<close> Python compares the wall-clock values, which is the same order).
\<close>

definition utc_micros :: "datetime \<Rightarrow> int" where
  "utc_micros d = ordinal d * 86400000000 + micros_of_day d - utcoffset d"

definition dt_less :: "datetime \<Rightarrow> datetime \<Rightarrow> bool" where
  "dt_less a b = (utc_micros a < utc_micros b)"

definition dt_le :: "datetime \<Rightarrow> datetime \<Rightarrow> bool" where
  "dt_le a b = (utc_micros a \<le> utc_micros b)"

text \<open>\<^verbatim>\<open>date.weekday()\<close>: Monday is 0, and ordinal 1 (0001-01-01) is a Monday.\<close>

definition weekday :: "datetime \<Rightarrow> nat" where
  "weekday d = nat ((ordinal d + 6) mod 7)"

subsection \<open>Configuration\<close>

definition SESSION_DURATION :: timedelta where
  "SESSION_DURATION = timedelta_minutes 90"

definition DATA_MANAGEMENT_DURATION :: timedelta where
  "DATA_MANAGEMENT_DURATION = timedelta_minutes 60"

definition SUBJECTS :: "(string \<times> nat) list" where
  "SUBJECTS =
     [(''Physics'', 11),
      (''Calculus and Vectors'', 7),
      (''English'', 8),
      (''Data Management'', 7)]"

subsection \<open>Fetched events\<close>

datatype error = KeyError | ValueError

text \<open>
  An event is the JSON object of the calendar service: a dictionary whose \<^verbatim>\<open>"start"\<close> and
  \<^verbatim>\<open>"end"\<close> entries are dictionaries with a \<^verbatim>\<open>"dateTime"\<close> or a \<^verbatim>\<open>"date"\<close> string.
\<close>

type_synonym event = "string \<rightharpoonup> (string \<rightharpoonup> string)"

datatype parsed = Naive naive_datetime | Aware datetime

type_synonym slot = "datetime \<times> datetime"

text \<open>Python's \<^verbatim>\<open>a or b\<close> on optional strings: \<^verbatim>\<open>None\<close> and the empty string are falsy.\<close>

definition truthy :: "string option \<Rightarrow> bool" where
  "truthy v = (case v of None \<Rightarrow> False | Some s \<Rightarrow> s \<noteq> [])"

definition py_or :: "string option \<Rightarrow> string option \<Rightarrow> string option" where
  "py_or a b = (if truthy a then a else b)"

text \<open>\<^verbatim>\<open>x.get("dateTime") or x.get("date")\<close>, for \<open>x\<close> the start or the end object of an event.\<close>

definition time_value :: "(string \<rightharpoonup> string) \<Rightarrow> string option" where
  "time_value obj = py_or (obj ''dateTime'') (obj ''date'')"

text \<open>\<^verbatim>\<open>if x.tzinfo is None: x = tz.localize(x)\<close>\<close>

definition localize :: "(naive_datetime \<Rightarrow> int) \<Rightarrow> naive_datetime \<Rightarrow> datetime" where
  "localize tz n =
     \<lparr>ordinal = ordinal n, hour = hour n, minute = minute n, second = second n,
      microsecond = microsecond n, utcoffset = tz n\<rparr>"

definition ensure_aware :: "(naive_datetime \<Rightarrow> int) \<Rightarrow> parsed \<Rightarrow> datetime" where
  "ensure_aware tz p = (case p of Naive n \<Rightarrow> localize tz n | Aware d \<Rightarrow> d)"

text \<open>
  Lines 83 to 95 of \<^verbatim>\<open>get_free_time\<close>, the reading of one event: \<open>Inl\<close> is the exception
  raised (\<^verbatim>\<open>event["start"]\<close> and \<^verbatim>\<open>event["end"]\<close> raise \<^verbatim>\<open>KeyError\<close> on a missing entry,
  \<^verbatim>\<open>isoparse\<close> raises \<^verbatim>\<open>ValueError\<close>), \<open>Inr None\<close> is the \<^verbatim>\<open>continue\<close>, and
  \<open>Inr (Some (start, end))\<close> the busy interval.
\<close>

definition read_event ::
  "(string \<Rightarrow> parsed option) \<Rightarrow> (naive_datetime \<Rightarrow> int) \<Rightarrow> event
     \<Rightarrow> error + (datetime \<times> datetime) option" where
  "read_event isoparse tz event =
     (case event ''start'' of
        None \<Rightarrow> Inl KeyError
      | Some start_obj \<Rightarrow>
         (case event ''end'' of
            None \<Rightarrow> Inl KeyError
          | Some end_obj \<Rightarrow>
             (let start = time_value start_obj;
                  end = time_value end_obj
              in if \<not> truthy start \<or> \<not> truthy end then Inr None
                 else (case start of
                         None \<Rightarrow> Inr None
                       | Some start_str \<Rightarrow>
                          (case end of
                             None \<Rightarrow> Inr None
                           | Some end_str \<Rightarrow>
                              (case isoparse start_str of
                                 None \<Rightarrow> Inl ValueError
                               | Some start_dt \<Rightarrow>
                                  (case isoparse end_str of
                                     None \<Rightarrow> Inl ValueError
                                   | Some end_dt \<Rightarrow>
                                      Inr (Some (ensure_aware tz start_dt,
                                                 ensure_aware tz end_dt)))))))))"

subsection \<open>The free-time calculator\<close>

text \<open>The test of line 97: \<^verbatim>\<open>slot[0] < end and start < slot[1]\<close>.\<close>

definition overlaps :: "slot \<Rightarrow> datetime \<Rightarrow> datetime \<Rightarrow> bool" where
  "overlaps slot start end = (dt_less (fst slot) end \<and> dt_less start (snd slot))"

text \<open>The loop over the events (lines 81 to 97), on the day's list of slots.\<close>

fun events_loop ::
  "(string \<Rightarrow> parsed option) \<Rightarrow> (naive_datetime \<Rightarrow> int) \<Rightarrow> event list \<Rightarrow> slot list
     \<Rightarrow> error + slot list" where
  "events_loop isoparse tz [] daily_slots = Inr daily_slots"
| "events_loop isoparse tz (event # events) daily_slots =
     (case read_event isoparse tz event of
        Inl e \<Rightarrow> Inl e
      | Inr None \<Rightarrow> events_loop isoparse tz events daily_slots
      | Inr (Some (start, end)) \<Rightarrow>
          events_loop isoparse tz events
            (filter (\<lambda>slot. \<not> overlaps slot start end) daily_slots))"

definition morning_slots :: "datetime \<Rightarrow> slot list" where
  "morning_slots today =
     [(today\<lparr>hour := 4, minute := 30\<rparr>, today\<lparr>hour := 8, minute := 0\<rparr>)]"

definition afternoon_slots :: "datetime \<Rightarrow> slot list" where
  "afternoon_slots today =
     [(today\<lparr>hour := 15, minute := 45\<rparr>, today\<lparr>hour := 21, minute := 30\<rparr>)]"

text \<open>
  The loop \<^verbatim>\<open>for _ in range(7)\<close> (lines 70 to 100): \<open>n\<close> iterations are left, \<open>today\<close> is the
  current day and \<open>free_slots\<close> the list built so far.
\<close>

fun days_loop ::
  "(string \<Rightarrow> parsed option) \<Rightarrow> (naive_datetime \<Rightarrow> int) \<Rightarrow> event list \<Rightarrow> nat \<Rightarrow> datetime
     \<Rightarrow> slot list list \<Rightarrow> error + slot list list" where
  "days_loop isoparse tz events 0 today free_slots = Inr free_slots"
| "days_loop isoparse tz events (Suc n) today free_slots =
     (case events_loop isoparse tz events (morning_slots today @ afternoon_slots today) of
        Inl e \<Rightarrow> Inl e
      | Inr daily_slots \<Rightarrow>
          days_loop isoparse tz events n (add_timedelta today (timedelta_days 1))
            (free_slots @ [daily_slots]))"

definition get_free_time ::
  "(string \<Rightarrow> parsed option) \<Rightarrow> (naive_datetime \<Rightarrow> int) \<Rightarrow> datetime \<Rightarrow> event list
     \<Rightarrow> error + slot list list" where
  "get_free_time isoparse tz now events =
     days_loop isoparse tz events 7
       (now\<lparr>hour := 4, minute := 35, second := 0, microsecond := 0\<rparr>) []"

subsection \<open>The session allocator\<close>

text \<open>
  A request handed to \<^verbatim>\<open>add_event\<close>: the summary and the colour of the subject, and the
  start and the end of the session.
\<close>

record session =
  summary :: string
  colorId :: nat
  req_start :: datetime
  req_end :: datetime

definition add_event :: "datetime \<Rightarrow> datetime \<Rightarrow> string \<times> nat \<Rightarrow> session" where
  "add_event s e sc =
     \<lparr>summary = fst sc, colorId = snd sc, req_start = s, req_end = e\<rparr>"

text \<open>
  The \<^verbatim>\<open>while\<close> loop of the morning fill (lines 133 to 138) and, with the same body, of the
  Thursday and Friday fill (lines 158 to 163); the result is the list of requests emitted.
\<close>

function while_fill :: "datetime \<Rightarrow> datetime \<Rightarrow> nat \<Rightarrow> session list" where
  "while_fill session_start end_time subject_index =
     (if dt_le (add_timedelta session_start SESSION_DURATION) end_time \<and> subject_index < 2
      then (let session_end = add_timedelta session_start SESSION_DURATION
            in add_event session_start session_end (SUBJECTS ! subject_index)
                 # while_fill session_end end_time (Suc subject_index))
      else [])"
  by pat_completeness auto
termination
  by (relation "measure (\<lambda>(s, e, i). 2 - i)") auto

text \<open>
  The loop \<^verbatim>\<open>for subject_index in subjects_order\<close> (lines 144 to 149): the requests emitted
  and the value of \<^verbatim>\<open>start_time\<close> after the loop.
\<close>

fun for_subjects :: "nat list \<Rightarrow> datetime \<Rightarrow> datetime \<Rightarrow> session list \<times> datetime" where
  "for_subjects [] start_time end_time = ([], start_time)"
| "for_subjects (subject_index # rest) start_time end_time =
     (if dt_le (add_timedelta start_time SESSION_DURATION) end_time
      then (let session_end = add_timedelta start_time SESSION_DURATION;
                (out, final) = for_subjects rest session_end end_time
            in (add_event start_time session_end (SUBJECTS ! subject_index) # out, final))
      else for_subjects rest start_time end_time)"

text \<open>The body of the first loop over the day's slots (lines 130 to 138).\<close>

definition morning_fill :: "slot \<Rightarrow> session list" where
  "morning_fill sl =
     (if hour (fst sl) = 4 \<and> minute (fst sl) = 30
      then while_fill (fst sl) (snd sl) 0
      else [])"

text \<open>The body of the second loop over the day's slots (lines 141 to 163).\<close>

definition afternoon_fill :: "nat \<Rightarrow> slot \<Rightarrow> session list" where
  "afternoon_fill wd sl =
     (if hour (fst sl) = 15 \<and> minute (fst sl) = 45
      then (if wd \<notin> {3, 4}
            then (let (out, start_time) = for_subjects [0, 1, 2] (fst sl) (snd sl)
                  in out @
                     (if dt_le (add_timedelta start_time DATA_MANAGEMENT_DURATION) (snd sl)
                      then [add_event start_time
                              (add_timedelta start_time DATA_MANAGEMENT_DURATION)
                              (SUBJECTS ! 3)]
                      else []))
            else while_fill ((fst sl)\<lparr>hour := 16, minute := 45\<rparr>) (snd sl) 0)
      else [])"

text \<open>
  The two loops over the day's slots (lines 129 to 138 and 140 to 163), and one iteration
  of the loop over the days (lines 125 to 163), for the weekday \<open>wd\<close>.
\<close>

definition morning_sessions :: "slot list \<Rightarrow> session list" where
  "morning_sessions slots = concat (map morning_fill slots)"

definition afternoon_sessions :: "nat \<Rightarrow> slot list \<Rightarrow> session list" where
  "afternoon_sessions wd slots = concat (map (afternoon_fill wd) slots)"

definition schedule_day :: "nat \<Rightarrow> slot list \<Rightarrow> session list" where
  "schedule_day wd slots = morning_sessions slots @ afternoon_sessions wd slots"

text \<open>
  Line 126: the allocator reads the clock again in every iteration, adds \<^verbatim>\<open>day_index\<close> days
  and takes the weekday of the result.
\<close>

definition allocator_weekday :: "(nat \<Rightarrow> datetime) \<Rightarrow> nat \<Rightarrow> nat" where
  "allocator_weekday nows day_index =
     weekday (add_timedelta (nows day_index) (timedelta_days (int day_index)))"

definition schedule_study_sessions ::
  "(string \<Rightarrow> parsed option) \<Rightarrow> (naive_datetime \<Rightarrow> int) \<Rightarrow> datetime \<Rightarrow> (nat \<Rightarrow> datetime)
     \<Rightarrow> event list \<Rightarrow> error + session list" where
  "schedule_study_sessions isoparse tz now nows events =
     (case get_free_time isoparse tz now events of
        Inl e \<Rightarrow> Inl e
      | Inr free_slots \<Rightarrow>
          Inr (concat (map (\<lambda>day_index.
                 schedule_day (allocator_weekday nows day_index) (free_slots ! day_index))
               [0..<7])))"

subsection \<open>Notions used to state the properties\<close>

text \<open>
  The clock time \<open>h:m:00\<close> on the \<open>k\<close>-th day after the day of \<open>now\<close>, with the \<^verbatim>\<open>tzinfo\<close>
  of \<open>now\<close>; the two configured windows of that day.
\<close>

definition at_clock :: "datetime \<Rightarrow> nat \<Rightarrow> nat \<Rightarrow> nat \<Rightarrow> datetime" where
  "at_clock now k h m =
     now\<lparr>ordinal := ordinal now + int k, hour := h, minute := m, second := 0,
         microsecond := 0\<rparr>"

text \<open>The value of \<^verbatim>\<open>today\<close> in iteration \<open>k\<close> of the calculator's loop over the days.\<close>

definition today_at :: "datetime \<Rightarrow> nat \<Rightarrow> datetime" where
  "today_at now k =
     now\<lparr>ordinal := ordinal now + int k, hour := 4, minute := 35, second := 0,
         microsecond := 0\<rparr>"

definition morning_window :: "datetime \<Rightarrow> nat \<Rightarrow> slot" where
  "morning_window now k = (at_clock now k 4 30, at_clock now k 8 0)"

definition afternoon_window :: "datetime \<Rightarrow> nat \<Rightarrow> slot" where
  "afternoon_window now k = (at_clock now k 15 45, at_clock now k 21 30)"

text \<open>An event is readable when reading it raises no exception.\<close>

definition readable :: "(string \<Rightarrow> parsed option) \<Rightarrow> (naive_datetime \<Rightarrow> int) \<Rightarrow> event \<Rightarrow> bool" where
  "readable isoparse tz event =
     (case read_event isoparse tz event of Inl e \<Rightarrow> False | Inr b \<Rightarrow> True)"

text \<open>A slot is blocked when the busy interval of some event overlaps it.\<close>

definition blocked ::
  "(string \<Rightarrow> parsed option) \<Rightarrow> (naive_datetime \<Rightarrow> int) \<Rightarrow> event list \<Rightarrow> slot \<Rightarrow> bool" where
  "blocked isoparse tz events sl =
     list_ex (\<lambda>event. case read_event isoparse tz event of
                          Inr (Some (start, end)) \<Rightarrow> overlaps sl start end
                        | _ \<Rightarrow> False) events"

text \<open>The requests emitted in iteration \<open>day_index\<close> of the allocator's loop over the days.\<close>

definition day_sessions ::
  "(string \<Rightarrow> parsed option) \<Rightarrow> (naive_datetime \<Rightarrow> int) \<Rightarrow> datetime \<Rightarrow> (nat \<Rightarrow> datetime)
     \<Rightarrow> event list \<Rightarrow> nat \<Rightarrow> error + session list" where
  "day_sessions isoparse tz now nows events day_index =
     (case get_free_time isoparse tz now events of
        Inl e \<Rightarrow> Inl e
      | Inr free_slots \<Rightarrow>
          Inr (schedule_day (allocator_weekday nows day_index) (free_slots ! day_index)))"

text \<open>
  The standard afternoon rule in the words of the specification: 90-minute sessions for the
  subjects 0, 1 and 2, back to back from the start of the interval, each placed only if it
  ends no later than the end of the interval; the 60-minute session of subject 3 is placed
  if and only if all three were placed and it ends no later than the end of the interval.
\<close>

definition spec_standard_afternoon :: "slot \<Rightarrow> session list" where
  "spec_standard_afternoon sl =
     (let s0 = fst sl;
          fits0 = dt_le (add_timedelta s0 SESSION_DURATION) (snd sl);
          s1 = (if fits0 then add_timedelta s0 SESSION_DURATION else s0);
          fits1 = dt_le (add_timedelta s1 SESSION_DURATION) (snd sl);
          s2 = (if fits1 then add_timedelta s1 SESSION_DURATION else s1);
          fits2 = dt_le (add_timedelta s2 SESSION_DURATION) (snd sl);
          s3 = (if fits2 then add_timedelta s2 SESSION_DURATION else s2);
          fits3 = dt_le (add_timedelta s3 DATA_MANAGEMENT_DURATION) (snd sl)
      in (if fits0
          then [add_event s0 (add_timedelta s0 SESSION_DURATION) (SUBJECTS ! 0)] else [])
       @ (if fits1
          then [add_event s1 (add_timedelta s1 SESSION_DURATION) (SUBJECTS ! 1)] else [])
       @ (if fits2
          then [add_event s2 (add_timedelta s2 SESSION_DURATION) (SUBJECTS ! 2)] else [])
       @ (if (fits0 \<and> fits1 \<and> fits2) \<and> fits3
          then [add_event s3 (add_timedelta s3 DATA_MANAGEMENT_DURATION) (SUBJECTS ! 3)]
          else []))"

subsection \<open>Example inputs\<close>

text \<open>
  Tuesday 2024-11-19, 13:07:12.000005 at UTC-5 (day ordinal 739209), as a reading of the
  clock, and a zone whose offset is always UTC-5.
\<close>

definition tuesday_now :: datetime where
  "tuesday_now =
     \<lparr>ordinal = 739209, hour = 13, minute = 7, second = 12, microsecond = 5,
      utcoffset = - 18000000000\<rparr>"

text \<open>An allocator clock that reads the same instant in every iteration.\<close>

definition tuesday_clock :: "nat \<Rightarrow> datetime" where
  "tuesday_clock day_index = tuesday_now"

definition example_tz :: "naive_datetime \<Rightarrow> int" where
  "example_tz n = - 18000000000"

text \<open>A parser that reads four strings and raises \<^verbatim>\<open>ValueError\<close> on every other.\<close>

definition example_isoparse :: "string \<Rightarrow> parsed option" where
  "example_isoparse s =
     (if s = ''2024-11-20T05:00:00-05:00'' then
        Some (Aware \<lparr>ordinal = 739210, hour = 5, minute = 0, second = 0, microsecond = 0,
                     utcoffset = - 18000000000\<rparr>)
      else if s = ''2024-11-20T06:00:00-05:00'' then
        Some (Aware \<lparr>ordinal = 739210, hour = 6, minute = 0, second = 0, microsecond = 0,
                     utcoffset = - 18000000000\<rparr>)
      else if s = ''2024-11-21'' then
        Some (Naive \<lparr>ordinal = 739211, hour = 0, minute = 0, second = 0, microsecond = 0\<rparr>)
      else if s = ''2024-11-22'' then
        Some (Naive \<lparr>ordinal = 739212, hour = 0, minute = 0, second = 0, microsecond = 0\<rparr>)
      else None)"

text \<open>An event on Wednesday from 05:00 to 06:00, and an all-day event on Thursday.\<close>

definition wednesday_event :: event where
  "wednesday_event =
     [''start'' \<mapsto> [''dateTime'' \<mapsto> ''2024-11-20T05:00:00-05:00''],
      ''end'' \<mapsto> [''dateTime'' \<mapsto> ''2024-11-20T06:00:00-05:00'']]"

definition thursday_all_day :: event where
  "thursday_all_day =
     [''start'' \<mapsto> [''date'' \<mapsto> ''2024-11-21''],
      ''end'' \<mapsto> [''date'' \<mapsto> ''2024-11-22'']]"

text \<open>
  An event whose start object has neither a \<^verbatim>\<open>dateTime\<close> nor a \<^verbatim>\<open>date\<close>, and two events
  that lack the start or the end object itself.
\<close>

definition event_without_start_value :: event where
  "event_without_start_value =
     [''start'' \<mapsto> Map.empty,
      ''end'' \<mapsto> [''dateTime'' \<mapsto> ''2024-11-20T06:00:00-05:00'']]"

definition event_without_start :: event where
  "event_without_start =
     [''end'' \<mapsto> [''dateTime'' \<mapsto> ''2024-11-20T06:00:00-05:00'']]"

definition event_without_end :: event where
  "event_without_end =
     [''start'' \<mapsto> [''dateTime'' \<mapsto> ''2024-11-20T05:00:00-05:00'']]"

section \<open>Properties\<close>

subsection \<open>Reading the events\<close>

lemma events_loop_readable:
  "\<forall>e\<in>set events. readable isoparse tz e \<Longrightarrow>
   events_loop isoparse tz events slots
     = Inr (filter (\<lambda>sl. \<not> blocked isoparse tz events sl) slots)"
proof (induction events arbitrary: slots)
  case Nil
  then show ?case by (simp add: blocked_def)
next
  case (Cons e es)
  then have r: "readable isoparse tz e" and rs: "\<forall>x\<in>set es. readable isoparse tz x"
    by simp_all
  show ?case
  proof (cases "read_event isoparse tz e")
    case (Inl err)
    with r show ?thesis by (simp add: readable_def)
  next
    case (Inr b)
    show ?thesis
    proof (cases b)
      case None
      with Inr Cons.IH[OF rs] show ?thesis by (simp add: blocked_def)
    next
      case (Some p)
      obtain s en where p: "p = (s, en)" by (cases p)
      with Some Inr Cons.IH[OF rs] show ?thesis
        by (simp add: blocked_def conj_commute)
    qed
  qed
qed

lemma events_loop_Inr_readable:
  "events_loop isoparse tz events slots = Inr r \<Longrightarrow> \<forall>e\<in>set events. readable isoparse tz e"
proof (induction events arbitrary: slots)
  case Nil
  then show ?case by simp
next
  case (Cons e es)
  show ?case
  proof (cases "read_event isoparse tz e")
    case (Inl err)
    with Cons.prems show ?thesis by simp
  next
    case (Inr b)
    then have re: "readable isoparse tz e" by (simp add: readable_def)
    have "\<exists>slots'. events_loop isoparse tz es slots' = Inr r"
      using Cons.prems Inr by (cases b) (auto split: prod.splits)
    then have "\<forall>x\<in>set es. readable isoparse tz x"
      using Cons.IH by blast
    with re show ?thesis by simp
  qed
qed

subsection \<open>The loop over the days\<close>

lemma today_at_next:
  "add_timedelta (today_at now k) (timedelta_days 1) = today_at now (Suc k)"
  by (simp add: today_at_def add_timedelta_def timedelta_days_def micros_of_day_def Let_def)

lemma daily_slots_today_at:
  "morning_slots (today_at now k) @ afternoon_slots (today_at now k)
     = [morning_window now k, afternoon_window now k]"
  by (simp add: morning_slots_def afternoon_slots_def today_at_def morning_window_def
      afternoon_window_def at_clock_def)

lemma days_loop_readable:
  "\<forall>e\<in>set events. readable isoparse tz e \<Longrightarrow>
   days_loop isoparse tz events n (today_at now k) acc
     = Inr (acc @ map (\<lambda>j. filter (\<lambda>sl. \<not> blocked isoparse tz events sl)
                             [morning_window now j, afternoon_window now j]) [k..<k + n])"
proof (induction n arbitrary: k acc)
  case 0
  then show ?case by simp
next
  case (Suc n)
  have "[k..<k + Suc n] = k # [Suc k..<Suc k + n]"
    by (simp add: upt_conv_Cons)
  with Suc.IH[OF Suc.prems, of "Suc k"] events_loop_readable[OF Suc.prems] show ?case
    by (simp add: today_at_next daily_slots_today_at)
qed

lemma days_loop_Inr_readable:
  "days_loop isoparse tz events (Suc n) today acc = Inr r \<Longrightarrow>
   \<forall>e\<in>set events. readable isoparse tz e"
  by (auto split: sum.splits dest: events_loop_Inr_readable)

lemma today_at_0:
  "now\<lparr>hour := 4, minute := 35, second := 0, microsecond := 0\<rparr> = today_at now 0"
  by (simp add: today_at_def)

lemma get_free_time_readable:
  "\<forall>e\<in>set events. readable isoparse tz e \<Longrightarrow>
   get_free_time isoparse tz now events
     = Inr (map (\<lambda>j. filter (\<lambda>sl. \<not> blocked isoparse tz events sl)
                        [morning_window now j, afternoon_window now j]) [0..<7])"
  unfolding get_free_time_def today_at_0
  using days_loop_readable[of events isoparse tz 7 now 0 "[]"] by simp

lemma get_free_time_Inr_readable:
  "get_free_time isoparse tz now events = Inr free \<Longrightarrow>
   \<forall>e\<in>set events. readable isoparse tz e"
  unfolding get_free_time_def
  using days_loop_Inr_readable[of isoparse tz events 6] by (simp add: eval_nat_numeral)

lemma get_free_time_Inr:
  assumes "get_free_time isoparse tz now events = Inr free" and "i < 7"
  shows "length free = 7"
    and "free ! i = filter (\<lambda>sl. \<not> blocked isoparse tz events sl)
                      [morning_window now i, afternoon_window now i]"
proof -
  have "\<forall>e\<in>set events. readable isoparse tz e"
    using assms(1) by (rule get_free_time_Inr_readable)
  from get_free_time_readable[OF this, of now] assms(1)
  have eq: "free = map (\<lambda>j. filter (\<lambda>sl. \<not> blocked isoparse tz events sl)
                        [morning_window now j, afternoon_window now j]) [0..<7]"
    by simp
  show "length free = 7" by (simp add: eq)
  show "free ! i = filter (\<lambda>sl. \<not> blocked isoparse tz events sl)
                      [morning_window now i, afternoon_window now i]"
    using assms(2) unfolding eq by (simp only: nth_map length_upt nth_upt) simp
qed

subsection \<open>Clock times of one day\<close>

lemma hour_at_clock [simp]: "hour (at_clock now k h m) = h"
  by (simp add: at_clock_def)

lemma minute_at_clock [simp]: "minute (at_clock now k h m) = m"
  by (simp add: at_clock_def)

lemma utc_micros_at_clock:
  "utc_micros (at_clock now k h m) =
     (ordinal now + int k) * 86400000000 + (int h * 60 + int m) * 60000000 - utcoffset now"
  by (simp add: utc_micros_def micros_of_day_def at_clock_def)

lemma dt_le_at_clock:
  "dt_le (at_clock now k h m) (at_clock now k h' m') = (h * 60 + m \<le> h' * 60 + m')"
  by (simp add: dt_le_def utc_micros_at_clock) linarith

lemma dt_less_at_clock:
  "dt_less (at_clock now k h m) (at_clock now k h' m') = (h * 60 + m < h' * 60 + m')"
  by (simp add: dt_less_def utc_micros_at_clock) linarith

lemma add_minutes_at_clock:
  assumes "h * 60 + m + d = h' * 60 + m'" and "m' < 60" and "h' < 24"
  shows "add_timedelta (at_clock now k h m) (timedelta_minutes (int d)) = at_clock now k h' m'"
proof -
  let ?t = "micros_of_day (at_clock now k h m) + timedelta_minutes (int d)"
  have t: "?t = (int h' * 60 + int m') * 60000000"
    using assms(1) by (simp add: micros_of_day_def at_clock_def timedelta_minutes_def)
  have b: "0 \<le> ?t" "?t < 86400000000"
    using assms(2,3) unfolding t by simp_all
  have r: "?t mod 86400000000 = ?t" "?t div 86400000000 = 0"
    using b by simp_all
  have h: "?t div 3600000000 = int h'"
    unfolding t using assms(2) by simp
  have m: "(?t div 60000000) mod 60 = int m'"
    unfolding t using assms(2) by simp
  have s: "(?t div 1000000) mod 60 = 0"
    unfolding t by simp
  have u: "?t mod 1000000 = 0"
    unfolding t by simp
  show ?thesis
    unfolding add_timedelta_def Let_def r h m s u
    by (simp add: at_clock_def)
qed

lemma add_session_at_clock:
  "h * 60 + m + 90 = h' * 60 + m' \<Longrightarrow> m' < 60 \<Longrightarrow> h' < 24 \<Longrightarrow>
   add_timedelta (at_clock now k h m) SESSION_DURATION = at_clock now k h' m'"
  unfolding SESSION_DURATION_def
  using add_minutes_at_clock[of h m 90 h' m' now k] by simp

lemma add_data_management_at_clock:
  "h * 60 + m + 60 = h' * 60 + m' \<Longrightarrow> m' < 60 \<Longrightarrow> h' < 24 \<Longrightarrow>
   add_timedelta (at_clock now k h m) DATA_MANAGEMENT_DURATION = at_clock now k h' m'"
  unfolding DATA_MANAGEMENT_DURATION_def
  using add_minutes_at_clock[of h m 60 h' m' now k] by simp

lemma session_steps:
  "add_timedelta (at_clock now k 4 30) SESSION_DURATION = at_clock now k 6 0"
  "add_timedelta (at_clock now k 6 0) SESSION_DURATION = at_clock now k 7 30"
  "add_timedelta (at_clock now k 7 30) SESSION_DURATION = at_clock now k 9 0"
  "add_timedelta (at_clock now k 15 45) SESSION_DURATION = at_clock now k 17 15"
  "add_timedelta (at_clock now k 17 15) SESSION_DURATION = at_clock now k 18 45"
  "add_timedelta (at_clock now k 18 45) SESSION_DURATION = at_clock now k 20 15"
  "add_timedelta (at_clock now k 20 15) DATA_MANAGEMENT_DURATION = at_clock now k 21 15"
  "add_timedelta (at_clock now k 16 45) SESSION_DURATION = at_clock now k 18 15"
  "add_timedelta (at_clock now k 18 15) SESSION_DURATION = at_clock now k 19 45"
  "add_timedelta (at_clock now k 19 45) SESSION_DURATION = at_clock now k 21 15"
  by (simp_all add: add_session_at_clock add_data_management_at_clock)

lemma anchor_at_clock:
  "(at_clock now k h m)\<lparr>hour := h', minute := m'\<rparr> = at_clock now k h' m'"
  by (simp add: at_clock_def)

lemmas fill_simps = session_steps dt_le_at_clock add_event_def SUBJECTS_def
  morning_window_def afternoon_window_def anchor_at_clock Let_def

subsection \<open>The allocator on the two windows\<close>

lemma morning_fill_morning_window:
  "morning_fill (morning_window now k) =
     [\<lparr>summary = ''Physics'', colorId = 11,
       req_start = at_clock now k 4 30, req_end = at_clock now k 6 0\<rparr>,
      \<lparr>summary = ''Calculus and Vectors'', colorId = 7,
       req_start = at_clock now k 6 0, req_end = at_clock now k 7 30\<rparr>]"
  by (simp add: morning_fill_def fill_simps)

lemma morning_fill_afternoon_window:
  "morning_fill (afternoon_window now k) = []"
  by (simp add: morning_fill_def afternoon_window_def)

lemma afternoon_fill_morning_window:
  "afternoon_fill wd (morning_window now k) = []"
  by (simp add: afternoon_fill_def morning_window_def)

lemma afternoon_fill_standard:
  "wd \<notin> {3, 4} \<Longrightarrow>
   afternoon_fill wd (afternoon_window now k) =
     [\<lparr>summary = ''Physics'', colorId = 11,
       req_start = at_clock now k 15 45, req_end = at_clock now k 17 15\<rparr>,
      \<lparr>summary = ''Calculus and Vectors'', colorId = 7,
       req_start = at_clock now k 17 15, req_end = at_clock now k 18 45\<rparr>,
      \<lparr>summary = ''English'', colorId = 8,
       req_start = at_clock now k 18 45, req_end = at_clock now k 20 15\<rparr>,
      \<lparr>summary = ''Data Management'', colorId = 7,
       req_start = at_clock now k 20 15, req_end = at_clock now k 21 15\<rparr>]"
  by (simp add: afternoon_fill_def fill_simps)

lemma afternoon_fill_thu_fri:
  "wd \<in> {3, 4} \<Longrightarrow>
   afternoon_fill wd (afternoon_window now k) =
     [\<lparr>summary = ''Physics'', colorId = 11,
       req_start = at_clock now k 16 45, req_end = at_clock now k 18 15\<rparr>,
      \<lparr>summary = ''Calculus and Vectors'', colorId = 7,
       req_start = at_clock now k 18 15, req_end = at_clock now k 19 45\<rparr>]"
  by (auto simp add: afternoon_fill_def fill_simps)

subsection \<open>The two windows of a day\<close>

lemma windows_distinct: "morning_window now k \<noteq> afternoon_window now k"
proof
  assume "morning_window now k = afternoon_window now k"
  then have "hour (fst (morning_window now k)) = hour (fst (afternoon_window now k))"
    by simp
  then show False by (simp add: morning_window_def afternoon_window_def)
qed

lemma window_order:
  "dt_less (fst (morning_window now k)) (snd (morning_window now k))"
  "dt_less (fst (afternoon_window now k)) (snd (afternoon_window now k))"
  "\<not> dt_le (snd (afternoon_window now k)) (snd (morning_window now k))"
  "\<not> dt_le (fst (afternoon_window now k)) (fst (morning_window now k))"
  by (simp_all add: morning_window_def afternoon_window_def dt_less_at_clock dt_le_at_clock)

lemma not_blocked_no_overlap:
  "\<not> blocked isoparse tz events sl \<Longrightarrow> e \<in> set events \<Longrightarrow>
   read_event isoparse tz e = Inr (Some (bs, be)) \<Longrightarrow> \<not> overlaps sl bs be"
  by (auto simp: blocked_def list_ex_iff)

lemma overlap_blocked:
  "e \<in> set events \<Longrightarrow> read_event isoparse tz e = Inr (Some (bs, be)) \<Longrightarrow>
   overlaps sl bs be \<Longrightarrow> blocked isoparse tz events sl"
  by (auto simp: blocked_def list_ex_iff intro!: bexI[of _ e])

subsection \<open>The calculator on an empty list of events\<close>

text \<open>
  Claim C7. If the list of busy events is empty, the calculator returns, for each of the
  7 consecutive days starting today (the date advanced by one day per iteration), exactly
  the two configured windows, unchanged: the morning window from 04:30 to 08:00 and the
  afternoon window from 15:45 to 21:30 of that day's date.
\<close>

theorem get_free_time_empty:
  "get_free_time isoparse tz now [] =
     Inr (map (\<lambda>k. [(at_clock now k 4 30, at_clock now k 8 0),
                     (at_clock now k 15 45, at_clock now k 21 30)]) [0..<7])"
  using get_free_time_readable[of "[]" isoparse tz now]
  by (simp add: blocked_def morning_window_def afternoon_window_def)

subsection \<open>The example events\<close>

lemma read_wednesday_event:
  "read_event example_isoparse example_tz wednesday_event =
     Inr (Some (\<lparr>ordinal = 739210, hour = 5, minute = 0, second = 0, microsecond = 0,
                  utcoffset = - 18000000000\<rparr>,
                \<lparr>ordinal = 739210, hour = 6, minute = 0, second = 0, microsecond = 0,
                  utcoffset = - 18000000000\<rparr>))"
  by (simp add: read_event_def wednesday_event_def time_value_def py_or_def truthy_def
      example_isoparse_def ensure_aware_def)

lemma read_thursday_all_day:
  "read_event example_isoparse example_tz thursday_all_day =
     Inr (Some (\<lparr>ordinal = 739211, hour = 0, minute = 0, second = 0, microsecond = 0,
                  utcoffset = - 18000000000\<rparr>,
                \<lparr>ordinal = 739212, hour = 0, minute = 0, second = 0, microsecond = 0,
                  utcoffset = - 18000000000\<rparr>))"
  by (simp add: read_event_def thursday_all_day_def time_value_def py_or_def truthy_def
      example_isoparse_def ensure_aware_def localize_def example_tz_def)

lemma read_event_without_start_value:
  "read_event example_isoparse example_tz event_without_start_value = Inr None"
  by (simp add: read_event_def event_without_start_value_def time_value_def py_or_def
      truthy_def)

lemma read_event_without_start:
  "read_event isoparse tz event_without_start = Inl KeyError"
  by (simp add: read_event_def event_without_start_def)

lemma read_event_without_end:
  "read_event isoparse tz event_without_end = Inl KeyError"
  by (simp add: read_event_def event_without_end_def)

lemma readable_examples:
  "readable example_isoparse example_tz wednesday_event"
  "readable example_isoparse example_tz thursday_all_day"
  by (simp_all add: readable_def read_wednesday_event read_thursday_all_day)

lemma get_free_time_raises:
  "read_event isoparse tz e = Inl err \<Longrightarrow> \<forall>x\<in>set before. readable isoparse tz x \<Longrightarrow>
   get_free_time isoparse tz now (before @ e # after) = Inl err"
proof -
  assume e: "read_event isoparse tz e = Inl err"
    and b: "\<forall>x\<in>set before. readable isoparse tz x"
  have "events_loop isoparse tz (before @ e # after) slots = Inl err" for slots
    using b
  proof (induction before arbitrary: slots)
    case Nil
    then show ?case by (simp add: e)
  next
    case (Cons x xs)
    then show ?case
      by (cases "read_event isoparse tz x") (auto simp: readable_def split: option.splits)
  qed
  then show ?thesis
    by (simp add: get_free_time_def eval_nat_numeral)
qed

lemma nth_map_upt_7: "i < 7 \<Longrightarrow> map f [0..<7] ! i = f i"
  by simp

lemma tuesday_windows_free:
  "\<not> blocked example_isoparse example_tz [wednesday_event] (morning_window tuesday_now 0)"
  "\<not> blocked example_isoparse example_tz [wednesday_event] (afternoon_window tuesday_now 0)"
  "\<not> blocked example_isoparse example_tz [wednesday_event] (afternoon_window tuesday_now 2)"
  by (simp_all add: blocked_def read_wednesday_event overlaps_def dt_less_def utc_micros_def
      micros_of_day_def morning_window_def afternoon_window_def at_clock_def tuesday_now_def)

lemma get_free_time_wednesday_event:
  "get_free_time example_isoparse example_tz tuesday_now [wednesday_event] =
     Inr (map (\<lambda>j. filter (\<lambda>sl. \<not> blocked example_isoparse example_tz [wednesday_event] sl)
                      [morning_window tuesday_now j, afternoon_window tuesday_now j]) [0..<7])"
  using get_free_time_readable[of "[wednesday_event]" example_isoparse example_tz tuesday_now]
  by (simp add: readable_examples)

lemma example_calculator_run:
  "\<exists>free. get_free_time example_isoparse example_tz tuesday_now [wednesday_event] = Inr free \<and>
          morning_window tuesday_now 0 \<in> set (free ! 0) \<and>
          afternoon_window tuesday_now 0 \<in> set (free ! 0) \<and>
          afternoon_window tuesday_now 2 \<in> set (free ! 2)"
proof -
  let ?day = "\<lambda>j. filter (\<lambda>sl. \<not> blocked example_isoparse example_tz [wednesday_event] sl)
                      [morning_window tuesday_now j, afternoon_window tuesday_now j]"
  have d0: "map ?day [0..<7] ! 0 = ?day 0"
    by (rule nth_map_upt_7) simp
  have d2: "map ?day [0..<7] ! 2 = ?day 2"
    by (rule nth_map_upt_7) simp
  have "morning_window tuesday_now 0 \<in> set (map ?day [0..<7] ! 0)"
    and "afternoon_window tuesday_now 0 \<in> set (map ?day [0..<7] ! 0)"
    and "afternoon_window tuesday_now 2 \<in> set (map ?day [0..<7] ! 2)"
    unfolding d0 d2 using tuesday_windows_free by simp_all
  with get_free_time_wednesday_event show ?thesis by blast
qed

lemma get_free_time_no_events:
  "get_free_time isoparse tz now [] =
     Inr (map (\<lambda>j. [morning_window now j, afternoon_window now j]) [0..<7])"
  using get_free_time_readable[of "[]" isoparse tz now] by (simp add: blocked_def)

lemma tuesday_clock_weekdays:
  "allocator_weekday tuesday_clock 0 = 1"
  "allocator_weekday tuesday_clock 2 = 3"
  by (simp_all add: allocator_weekday_def tuesday_clock_def tuesday_now_def weekday_def
      add_timedelta_def micros_of_day_def timedelta_days_def Let_def)

subsection \<open>The shape of the calculator's result\<close>

text \<open>
  Claim C10, as amended. For every list of events each of which can be read without an
  exception, \<^verbatim>\<open>get_free_time\<close> returns exactly 7 per-day lists, each of at most 2
  intervals, and every interval of day \<open>i\<close> is one of the two full configured windows of that
  day (04:30 to 08:00, or 15:45 to 21:30), never a proper part of one, with its start before
  its end. On a list with an event that cannot be read the calculator raises the
  exception and returns nothing.
\<close>

theorem get_free_time_shape:
  assumes "\<forall>e\<in>set events. readable isoparse tz e"
  shows "\<exists>free. get_free_time isoparse tz now events = Inr free \<and> length free = 7 \<and>
           (\<forall>i<7. length (free ! i) \<le> 2 \<and>
              (\<forall>f\<in>set (free ! i).
                 (f = (at_clock now i 4 30, at_clock now i 8 0) \<or>
                  f = (at_clock now i 15 45, at_clock now i 21 30)) \<and>
                 dt_less (fst f) (snd f)))"
proof -
  let ?day = "\<lambda>j. filter (\<lambda>sl. \<not> blocked isoparse tz events sl)
                      [morning_window now j, afternoon_window now j]"
  have g: "get_free_time isoparse tz now events = Inr (map ?day [0..<7])"
    using assms by (rule get_free_time_readable)
  have "length (map ?day [0..<7]) = 7" by simp
  moreover have "\<forall>i<7. length (map ?day [0..<7] ! i) \<le> 2 \<and>
              (\<forall>f\<in>set (map ?day [0..<7] ! i).
                 (f = (at_clock now i 4 30, at_clock now i 8 0) \<or>
                  f = (at_clock now i 15 45, at_clock now i 21 30)) \<and>
                 dt_less (fst f) (snd f))"
  proof (intro allI impI)
    fix i :: nat
    assume i: "i < 7"
    have n: "map ?day [0..<7] ! i = ?day i"
      using i by (simp only: nth_map length_upt nth_upt) simp
    show "length (map ?day [0..<7] ! i) \<le> 2 \<and>
              (\<forall>f\<in>set (map ?day [0..<7] ! i).
                 (f = (at_clock now i 4 30, at_clock now i 8 0) \<or>
                  f = (at_clock now i 15 45, at_clock now i 21 30)) \<and>
                 dt_less (fst f) (snd f))"
      unfolding n using window_order(1,2)[of now i]
      by (auto simp: morning_window_def afternoon_window_def)
  qed
  ultimately show ?thesis using g by blast
qed

theorem get_free_time_shape_witness:
  "readable example_isoparse example_tz wednesday_event \<and>
   readable example_isoparse example_tz thursday_all_day \<and>
   (\<exists>free. get_free_time example_isoparse example_tz tuesday_now
              [wednesday_event, thursday_all_day] = Inr free \<and> length free = 7 \<and>
           (\<forall>i<7. length (free ! i) \<le> 2 \<and>
              (\<forall>f\<in>set (free ! i).
                 (f = (at_clock tuesday_now i 4 30, at_clock tuesday_now i 8 0) \<or>
                  f = (at_clock tuesday_now i 15 45, at_clock tuesday_now i 21 30)) \<and>
                 dt_less (fst f) (snd f))))"
  using get_free_time_shape[of "[wednesday_event, thursday_all_day]" example_isoparse
      example_tz tuesday_now]
  by (simp add: readable_examples)

text \<open>
  The claim as stated, for every list of events, fails on a list with an event that has no
  end object: \<^verbatim>\<open>event["end"]\<close> raises \<^verbatim>\<open>KeyError\<close> and no list is returned.
\<close>

theorem get_free_time_shape_counterexample:
  "get_free_time example_isoparse example_tz tuesday_now [wednesday_event, event_without_end]
     = Inl KeyError"
  using get_free_time_raises[of example_isoparse example_tz event_without_end KeyError
      "[wednesday_event]" tuesday_now "[]"]
  by (simp add: read_event_without_end readable_examples)

subsection \<open>Determinism of the calculator\<close>

text \<open>
  Claim C9. Two runs of the free-time calculator on the same list of busy events and the
  same reference time produce identical results. The result depends on the clock only
  through the date and the UTC offset of the reading: two runs at different times of the
  same day agree as well.
\<close>

theorem get_free_time_deterministic:
  assumes "ordinal now' = ordinal now" and "utcoffset now' = utcoffset now"
  shows "get_free_time isoparse tz now' events = get_free_time isoparse tz now events"
proof -
  have "now'\<lparr>hour := 4, minute := 35, second := 0, microsecond := 0\<rparr>
          = now\<lparr>hour := 4, minute := 35, second := 0, microsecond := 0\<rparr>"
    using assms by (intro datetime.equality) simp_all
  then show ?thesis by (simp add: get_free_time_def)
qed

theorem get_free_time_deterministic_witness:
  "ordinal (tuesday_now\<lparr>hour := 23, minute := 59\<rparr>) = ordinal tuesday_now \<and>
   utcoffset (tuesday_now\<lparr>hour := 23, minute := 59\<rparr>) = utcoffset tuesday_now \<and>
   tuesday_now\<lparr>hour := 23, minute := 59\<rparr> \<noteq> tuesday_now \<and>
   get_free_time example_isoparse example_tz (tuesday_now\<lparr>hour := 23, minute := 59\<rparr>)
       [wednesday_event]
     = get_free_time example_isoparse example_tz tuesday_now [wednesday_event]"
proof -
  have "hour (tuesday_now\<lparr>hour := 23, minute := 59\<rparr>) \<noteq> hour tuesday_now"
    by (simp add: tuesday_now_def)
  then have "tuesday_now\<lparr>hour := 23, minute := 59\<rparr> \<noteq> tuesday_now"
    by metis
  then show ?thesis
    using get_free_time_deterministic[of "tuesday_now\<lparr>hour := 23, minute := 59\<rparr>"
        tuesday_now example_isoparse example_tz "[wednesday_event]"]
    by simp
qed

subsection \<open>Whole-window blackout\<close>

text \<open>
  Claim C2. For every day \<open>i\<close> and each of the two candidate windows \<open>w\<close> of that day: if
  the busy interval \<open>(bs, be)\<close> of some event overlaps the window under the test
  \<open>bs < end of w\<close> and \<open>start of w < be\<close>, then the window is not in the calculator's list
  for that day, and no interval of that list lies within the window: the whole window is
  removed and no remainder of it is kept.
\<close>

theorem whole_window_blackout:
  assumes "get_free_time isoparse tz now events = Inr free"
    and "i < 7"
    and "e \<in> set events"
    and "read_event isoparse tz e = Inr (Some (bs, be))"
    and "w = (at_clock now i 4 30, at_clock now i 8 0) \<or>
         w = (at_clock now i 15 45, at_clock now i 21 30)"
    and "dt_less bs (snd w) \<and> dt_less (fst w) be"
  shows "w \<notin> set (free ! i) \<and>
         (\<forall>f\<in>set (free ! i). \<not> (dt_le (fst w) (fst f) \<and> dt_le (snd f) (snd w)))"
proof -
  have day: "free ! i = filter (\<lambda>sl. \<not> blocked isoparse tz events sl)
                      [morning_window now i, afternoon_window now i]"
    using assms(1,2) by (rule get_free_time_Inr(2))
  have "overlaps w bs be"
    using assms(6) by (simp add: overlaps_def)
  then have b: "blocked isoparse tz events w"
    using assms(3,4) overlap_blocked by blast
  have w: "w = morning_window now i \<or> w = afternoon_window now i"
    using assms(5) by (simp add: morning_window_def afternoon_window_def)
  have out: "w \<notin> set (free ! i)"
    unfolding day using b by auto
  have "\<not> (dt_le (fst w) (fst f) \<and> dt_le (snd f) (snd w))" if f: "f \<in> set (free ! i)" for f
  proof -
    from f have "f \<in> set [morning_window now i, afternoon_window now i]"
      unfolding day by (simp only: set_filter) blast
    then have fw: "f = morning_window now i \<or> f = afternoon_window now i"
      by simp
    from f out have "f \<noteq> w" by blast
    with w fw have "(w = morning_window now i \<and> f = afternoon_window now i) \<or>
                    (w = afternoon_window now i \<and> f = morning_window now i)"
      by blast
    then show ?thesis
      using window_order(3,4)[of now i] by auto
  qed
  with out show ?thesis by blast
qed

theorem whole_window_blackout_witness:
  "\<exists>free. get_free_time example_isoparse example_tz tuesday_now [wednesday_event] = Inr free \<and>
     read_event example_isoparse example_tz wednesday_event =
       Inr (Some (\<lparr>ordinal = 739210, hour = 5, minute = 0, second = 0, microsecond = 0,
                    utcoffset = - 18000000000\<rparr>,
                  \<lparr>ordinal = 739210, hour = 6, minute = 0, second = 0, microsecond = 0,
                    utcoffset = - 18000000000\<rparr>)) \<and>
     dt_less \<lparr>ordinal = 739210, hour = 5, minute = 0, second = 0, microsecond = 0,
               utcoffset = - 18000000000\<rparr> (at_clock tuesday_now 1 8 0) \<and>
     dt_less (at_clock tuesday_now 1 4 30)
             \<lparr>ordinal = 739210, hour = 6, minute = 0, second = 0, microsecond = 0,
               utcoffset = - 18000000000\<rparr> \<and>
     (at_clock tuesday_now 1 4 30, at_clock tuesday_now 1 8 0) \<notin> set (free ! 1)"
proof -
  let ?bs = "\<lparr>ordinal = 739210, hour = 5, minute = 0, second = 0, microsecond = 0,
               utcoffset = - 18000000000\<rparr>"
  let ?be = "\<lparr>ordinal = 739210, hour = 6, minute = 0, second = 0, microsecond = 0,
               utcoffset = - 18000000000\<rparr>"
  obtain free where
    g: "get_free_time example_isoparse example_tz tuesday_now [wednesday_event] = Inr free"
    using get_free_time_readable[of "[wednesday_event]" example_isoparse example_tz tuesday_now]
    by (simp add: readable_examples)
  have o1: "dt_less ?bs (at_clock tuesday_now 1 8 0)"
    by (simp add: dt_less_def utc_micros_def micros_of_day_def at_clock_def
        tuesday_now_def)
  have o2: "dt_less (at_clock tuesday_now 1 4 30) ?be"
    by (simp add: dt_less_def utc_micros_def micros_of_day_def at_clock_def
        tuesday_now_def)
  have "(at_clock tuesday_now 1 4 30, at_clock tuesday_now 1 8 0) \<notin> set (free ! 1)"
    using whole_window_blackout[OF g, of 1 wednesday_event ?bs ?be
        "(at_clock tuesday_now 1 4 30, at_clock tuesday_now 1 8 0)"]
      read_wednesday_event o1 o2
    by simp
  with g read_wednesday_event o1 o2 show ?thesis by blast
qed

subsection \<open>Events without a start or an end value\<close>

lemma read_event_skipped:
  assumes "event ''start'' = Some start_obj" and "event ''end'' = Some end_obj"
    and "\<not> truthy (time_value start_obj) \<or> \<not> truthy (time_value end_obj)"
  shows "read_event isoparse tz event = Inr None"
  using assms by (auto simp: read_event_def Let_def)

lemma events_loop_skip:
  "read_event isoparse tz event = Inr None \<Longrightarrow>
   events_loop isoparse tz (before @ event # after) slots
     = events_loop isoparse tz (before @ after) slots"
proof (induction before arbitrary: slots)
  case Nil
  then show ?case by simp
next
  case (Cons x xs)
  then show ?case
    by (cases "read_event isoparse tz x") (auto split: option.splits)
qed

lemma days_loop_cong:
  "(\<And>slots. events_loop isoparse tz events slots = events_loop isoparse tz events' slots) \<Longrightarrow>
   days_loop isoparse tz events n today acc = days_loop isoparse tz events' n today acc"
  by (induction n arbitrary: today acc) (simp_all split: sum.splits)

text \<open>
  Claim C8, as amended. A fetched event that has a start object and an end object, of
  which at least one carries neither a \<^verbatim>\<open>dateTime\<close> nor a \<^verbatim>\<open>date\<close> value (or only empty
  ones), is skipped by the calculator and contributes no blackout: the result computed in
  its presence equals the result computed with that event removed from the input.
\<close>

theorem event_without_value_skipped:
  assumes "event ''start'' = Some start_obj" and "event ''end'' = Some end_obj"
    and "\<not> truthy (time_value start_obj) \<or> \<not> truthy (time_value end_obj)"
  shows "get_free_time isoparse tz now (before @ event # after)
           = get_free_time isoparse tz now (before @ after)"
proof -
  have "read_event isoparse tz event = Inr None"
    using assms by (rule read_event_skipped)
  then have "events_loop isoparse tz (before @ event # after) slots
               = events_loop isoparse tz (before @ after) slots" for slots
    by (rule events_loop_skip)
  then show ?thesis
    unfolding get_free_time_def by (rule days_loop_cong)
qed

theorem event_without_value_skipped_witness:
  "event_without_start_value ''start'' = Some Map.empty \<and>
   event_without_start_value ''end'' = Some [''dateTime'' \<mapsto> ''2024-11-20T06:00:00-05:00''] \<and>
   \<not> truthy (time_value Map.empty) \<and>
   get_free_time example_isoparse example_tz tuesday_now
       [wednesday_event, event_without_start_value, thursday_all_day]
     = get_free_time example_isoparse example_tz tuesday_now
         [wednesday_event, thursday_all_day]"
proof -
  have s: "event_without_start_value ''start'' = Some Map.empty"
    and e: "event_without_start_value ''end''
              = Some [''dateTime'' \<mapsto> ''2024-11-20T06:00:00-05:00'']"
    by (simp_all add: event_without_start_value_def)
  have t: "\<not> truthy (time_value Map.empty)"
    by (simp add: time_value_def py_or_def truthy_def)
  then have "\<not> truthy (time_value Map.empty) \<or>
             \<not> truthy (time_value [''dateTime'' \<mapsto> ''2024-11-20T06:00:00-05:00''])"
    by simp
  from event_without_value_skipped[OF s e this, of example_isoparse example_tz tuesday_now
      "[wednesday_event]" "[thursday_all_day]"] s e t
  show ?thesis by simp
qed

text \<open>
  The claim as stated fails for an event that lacks the start object itself:
  \<^verbatim>\<open>event["start"]\<close> raises \<^verbatim>\<open>KeyError\<close>, the event is not skipped, and the result differs
  from the result without the event.
\<close>

theorem event_without_start_counterexample:
  "get_free_time example_isoparse example_tz tuesday_now [event_without_start] = Inl KeyError \<and>
   get_free_time example_isoparse example_tz tuesday_now [event_without_start]
     \<noteq> get_free_time example_isoparse example_tz tuesday_now []"
proof -
  have a: "get_free_time example_isoparse example_tz tuesday_now [event_without_start]
             = Inl KeyError"
    using get_free_time_raises[of example_isoparse example_tz event_without_start KeyError
        "[]" tuesday_now "[]"]
    by (simp add: read_event_without_start)
  have "\<exists>free. get_free_time example_isoparse example_tz tuesday_now [] = Inr free"
    using get_free_time_readable[of "[]" example_isoparse example_tz tuesday_now] by simp
  with a show ?thesis by auto
qed

subsection \<open>The two fill loops, unrolled\<close>

lemma while_fill_from_2: "while_fill s e (Suc (Suc 0)) = []"
  by simp

lemma while_fill_from_1:
  "while_fill s e (Suc 0) =
     (if dt_le (add_timedelta s SESSION_DURATION) e
      then [add_event s (add_timedelta s SESSION_DURATION) (SUBJECTS ! 1)]
      else [])"
  by (subst while_fill.simps) (simp add: Let_def)

lemma while_fill_from_0:
  "while_fill s e 0 =
     (if dt_le (add_timedelta s SESSION_DURATION) e
      then add_event s (add_timedelta s SESSION_DURATION) (SUBJECTS ! 0)
           # (if dt_le (add_timedelta (add_timedelta s SESSION_DURATION) SESSION_DURATION) e
              then [add_event (add_timedelta s SESSION_DURATION)
                      (add_timedelta (add_timedelta s SESSION_DURATION) SESSION_DURATION)
                      (SUBJECTS ! 1)]
              else [])
      else [])"
  by (subst while_fill.simps) (simp add: Let_def while_fill_from_1 del: while_fill.simps)

subsection \<open>Sessions of a day's surviving windows\<close>

lemma surviving_window:
  assumes "get_free_time isoparse tz now events = Inr free" and "i < 7"
    and "sl \<in> set (free ! i)"
  shows "(sl = morning_window now i \<or> sl = afternoon_window now i) \<and>
         \<not> blocked isoparse tz events sl"
proof -
  have "free ! i = filter (\<lambda>sl. \<not> blocked isoparse tz events sl)
                      [morning_window now i, afternoon_window now i]"
    using assms(1,2) by (rule get_free_time_Inr(2))
  with assms(3) have "sl \<in> set (filter (\<lambda>sl. \<not> blocked isoparse tz events sl)
                      [morning_window now i, afternoon_window now i])"
    by (simp only:)
  then have "sl \<in> set [morning_window now i, afternoon_window now i] \<and>
             \<not> blocked isoparse tz events sl"
    by (simp only: set_filter mem_Collect_eq simp_thms)
  then show ?thesis by simp
qed

lemma surviving_morning:
  assumes "get_free_time isoparse tz now events = Inr free" and "i < 7"
    and "sl \<in> set (free ! i)" and "hour (fst sl) = 4"
  shows "sl = morning_window now i"
  using surviving_window[OF assms(1-3)] assms(4) by (auto simp: afternoon_window_def)

lemma surviving_afternoon:
  assumes "get_free_time isoparse tz now events = Inr free" and "i < 7"
    and "sl \<in> set (free ! i)" and "hour (fst sl) = 15"
  shows "sl = afternoon_window now i"
  using surviving_window[OF assms(1-3)] assms(4) by (auto simp: morning_window_def)

lemma get_free_time_empty_day:
  assumes "get_free_time isoparse tz now [] = Inr free" and "i < 7"
  shows "free ! i = [morning_window now i, afternoon_window now i]"
  using get_free_time_Inr(2)[OF assms] by (simp add: blocked_def)

lemma morning_sessions_both:
  "morning_sessions [morning_window now i, afternoon_window now i]
     = morning_fill (morning_window now i)"
  by (simp add: morning_sessions_def morning_fill_afternoon_window)

lemma afternoon_sessions_both:
  "afternoon_sessions wd [morning_window now i, afternoon_window now i]
     = afternoon_fill wd (afternoon_window now i)"
  by (simp add: afternoon_sessions_def afternoon_fill_morning_window)

subsection \<open>The morning rule\<close>

text \<open>
  Claim C5. On a morning interval (one that starts at 04:30) the allocator places 90-minute
  sessions back to back from the start of the interval, for subject 0 and then subject 1,
  and stops as soon as two sessions are placed or the next session would end after the end
  of the interval. Every morning interval that survives the calculator gets the session of
  subject 0 from 04:30 to 06:00 and of subject 1 from 06:00 to 07:30, and no third; in
  particular with an empty busy list these are the morning sessions of each day.
\<close>

theorem morning_rule:
  "morning_fill sl =
     (if hour (fst sl) = 4 \<and> minute (fst sl) = 30
      then (if dt_le (add_timedelta (fst sl) SESSION_DURATION) (snd sl)
            then add_event (fst sl) (add_timedelta (fst sl) SESSION_DURATION) (SUBJECTS ! 0)
                 # (if dt_le (add_timedelta (add_timedelta (fst sl) SESSION_DURATION)
                                SESSION_DURATION) (snd sl)
                    then [add_event (add_timedelta (fst sl) SESSION_DURATION)
                            (add_timedelta (add_timedelta (fst sl) SESSION_DURATION)
                               SESSION_DURATION)
                            (SUBJECTS ! 1)]
                    else [])
            else [])
      else [])
   \<and> (get_free_time isoparse tz now events = Inr free \<and> i < 7 \<and> sl \<in> set (free ! i) \<and>
        hour (fst sl) = 4 \<and> minute (fst sl) = 30 \<longrightarrow>
        morning_fill sl =
          [\<lparr>summary = ''Physics'', colorId = 11,
            req_start = at_clock now i 4 30, req_end = at_clock now i 6 0\<rparr>,
           \<lparr>summary = ''Calculus and Vectors'', colorId = 7,
            req_start = at_clock now i 6 0, req_end = at_clock now i 7 30\<rparr>])
   \<and> (get_free_time isoparse tz now [] = Inr free' \<and> i < 7 \<longrightarrow>
        morning_sessions (free' ! i) =
          [\<lparr>summary = ''Physics'', colorId = 11,
            req_start = at_clock now i 4 30, req_end = at_clock now i 6 0\<rparr>,
           \<lparr>summary = ''Calculus and Vectors'', colorId = 7,
            req_start = at_clock now i 6 0, req_end = at_clock now i 7 30\<rparr>])"
proof (intro conjI impI)
  show "morning_fill sl =
     (if hour (fst sl) = 4 \<and> minute (fst sl) = 30
      then (if dt_le (add_timedelta (fst sl) SESSION_DURATION) (snd sl)
            then add_event (fst sl) (add_timedelta (fst sl) SESSION_DURATION) (SUBJECTS ! 0)
                 # (if dt_le (add_timedelta (add_timedelta (fst sl) SESSION_DURATION)
                                SESSION_DURATION) (snd sl)
                    then [add_event (add_timedelta (fst sl) SESSION_DURATION)
                            (add_timedelta (add_timedelta (fst sl) SESSION_DURATION)
                               SESSION_DURATION)
                            (SUBJECTS ! 1)]
                    else [])
            else [])
      else [])"
    unfolding morning_fill_def while_fill_from_0 by (rule refl)
next
  assume a: "get_free_time isoparse tz now events = Inr free \<and> i < 7 \<and> sl \<in> set (free ! i) \<and>
        hour (fst sl) = 4 \<and> minute (fst sl) = 30"
  then have "sl = morning_window now i"
    using surviving_morning[of isoparse tz now events free i sl] by blast
  then show "morning_fill sl =
          [\<lparr>summary = ''Physics'', colorId = 11,
            req_start = at_clock now i 4 30, req_end = at_clock now i 6 0\<rparr>,
           \<lparr>summary = ''Calculus and Vectors'', colorId = 7,
            req_start = at_clock now i 6 0, req_end = at_clock now i 7 30\<rparr>]"
    by (simp only: morning_fill_morning_window)
next
  assume "get_free_time isoparse tz now [] = Inr free' \<and> i < 7"
  then have "free' ! i = [morning_window now i, afternoon_window now i]"
    using get_free_time_empty_day by blast
  then show "morning_sessions (free' ! i) =
          [\<lparr>summary = ''Physics'', colorId = 11,
            req_start = at_clock now i 4 30, req_end = at_clock now i 6 0\<rparr>,
           \<lparr>summary = ''Calculus and Vectors'', colorId = 7,
            req_start = at_clock now i 6 0, req_end = at_clock now i 7 30\<rparr>]"
    by (simp only: morning_sessions_both morning_fill_morning_window)
qed


theorem morning_rule_witness:
  "hour (fst (at_clock tuesday_now 0 4 30, at_clock tuesday_now 0 8 0)) = 4 \<and>
   minute (fst (at_clock tuesday_now 0 4 30, at_clock tuesday_now 0 8 0)) = 30 \<and>
   (\<exists>free free'.
      get_free_time example_isoparse example_tz tuesday_now [wednesday_event] = Inr free \<and>
      (at_clock tuesday_now 0 4 30, at_clock tuesday_now 0 8 0) \<in> set (free ! 0) \<and>
      morning_fill (at_clock tuesday_now 0 4 30, at_clock tuesday_now 0 8 0) =
          [\<lparr>summary = ''Physics'', colorId = 11,
            req_start = at_clock tuesday_now 0 4 30, req_end = at_clock tuesday_now 0 6 0\<rparr>,
           \<lparr>summary = ''Calculus and Vectors'', colorId = 7,
            req_start = at_clock tuesday_now 0 6 0, req_end = at_clock tuesday_now 0 7 30\<rparr>] \<and>
      get_free_time example_isoparse example_tz tuesday_now [] = Inr free' \<and>
      morning_sessions (free' ! 0) =
          [\<lparr>summary = ''Physics'', colorId = 11,
            req_start = at_clock tuesday_now 0 4 30, req_end = at_clock tuesday_now 0 6 0\<rparr>,
           \<lparr>summary = ''Calculus and Vectors'', colorId = 7,
            req_start = at_clock tuesday_now 0 6 0, req_end = at_clock tuesday_now 0 7 30\<rparr>])"
proof -
  let ?sl = "(at_clock tuesday_now 0 4 30, at_clock tuesday_now 0 8 0)"
  obtain free where
    g: "get_free_time example_isoparse example_tz tuesday_now [wednesday_event] = Inr free"
    and "morning_window tuesday_now 0 \<in> set (free ! 0)"
    using example_calculator_run by blast
  then have m: "?sl \<in> set (free ! 0)"
    by (simp add: morning_window_def)
  obtain free' where
    g': "get_free_time example_isoparse example_tz tuesday_now [] = Inr free'"
    using get_free_time_no_events by blast
  have h: "hour (fst ?sl) = 4" "minute (fst ?sl) = 30" and lt: "(0::nat) < 7"
    by simp_all
  note rule = morning_rule[of ?sl example_isoparse example_tz tuesday_now "[wednesday_event]"
      free 0 free']
  have c2: "morning_fill ?sl =
          [\<lparr>summary = ''Physics'', colorId = 11,
            req_start = at_clock tuesday_now 0 4 30, req_end = at_clock tuesday_now 0 6 0\<rparr>,
           \<lparr>summary = ''Calculus and Vectors'', colorId = 7,
            req_start = at_clock tuesday_now 0 6 0, req_end = at_clock tuesday_now 0 7 30\<rparr>]"
    by (rule mp[OF conjunct1[OF conjunct2[OF rule]]]) (intro conjI g lt m h)
  have c3: "morning_sessions (free' ! 0) =
          [\<lparr>summary = ''Physics'', colorId = 11,
            req_start = at_clock tuesday_now 0 4 30, req_end = at_clock tuesday_now 0 6 0\<rparr>,
           \<lparr>summary = ''Calculus and Vectors'', colorId = 7,
            req_start = at_clock tuesday_now 0 6 0, req_end = at_clock tuesday_now 0 7 30\<rparr>]"
    by (rule mp[OF conjunct2[OF conjunct2[OF rule]]]) (intro conjI g' lt)
  from g m c2 g' c3 have "\<exists>free free'.
      get_free_time example_isoparse example_tz tuesday_now [wednesday_event] = Inr free \<and>
      ?sl \<in> set (free ! 0) \<and>
      morning_fill ?sl =
          [\<lparr>summary = ''Physics'', colorId = 11,
            req_start = at_clock tuesday_now 0 4 30, req_end = at_clock tuesday_now 0 6 0\<rparr>,
           \<lparr>summary = ''Calculus and Vectors'', colorId = 7,
            req_start = at_clock tuesday_now 0 6 0, req_end = at_clock tuesday_now 0 7 30\<rparr>] \<and>
      get_free_time example_isoparse example_tz tuesday_now [] = Inr free' \<and>
      morning_sessions (free' ! 0) =
          [\<lparr>summary = ''Physics'', colorId = 11,
            req_start = at_clock tuesday_now 0 4 30, req_end = at_clock tuesday_now 0 6 0\<rparr>,
           \<lparr>summary = ''Calculus and Vectors'', colorId = 7,
            req_start = at_clock tuesday_now 0 6 0, req_end = at_clock tuesday_now 0 7 30\<rparr>]"
    by blast
  with h show ?thesis by blast
qed

subsection \<open>The afternoon rule of Thursday and Friday\<close>

text \<open>
  Claim C6. On a day whose weekday is Thursday or Friday, the fill of an afternoon interval
  (one that starts at 15:45) starts at the clock time 16:45 of the interval's day, whatever
  the start of the interval and with no test that 16:45 lies inside the interval; at most
  two 90-minute sessions, for subject 0 and then subject 1, are placed back to back, each
  only if it ends no later than the end of the interval. Every afternoon interval that
  survives the calculator gets subject 0 from 16:45 to 18:15 and subject 1 from 18:15 to
  19:45 and nothing more; in particular with an empty busy list these are the afternoon
  sessions of a Thursday or Friday.
\<close>

theorem thursday_friday_rule:
  "(wd \<in> {3, 4} \<longrightarrow>
      afternoon_fill wd sl =
        (if hour (fst sl) = 15 \<and> minute (fst sl) = 45
         then (let anchor = (fst sl)\<lparr>hour := 16, minute := 45\<rparr>
               in if dt_le (add_timedelta anchor SESSION_DURATION) (snd sl)
                  then add_event anchor (add_timedelta anchor SESSION_DURATION) (SUBJECTS ! 0)
                       # (if dt_le (add_timedelta (add_timedelta anchor SESSION_DURATION)
                                      SESSION_DURATION) (snd sl)
                          then [add_event (add_timedelta anchor SESSION_DURATION)
                                  (add_timedelta (add_timedelta anchor SESSION_DURATION)
                                     SESSION_DURATION)
                                  (SUBJECTS ! 1)]
                          else [])
                  else [])
         else []))
   \<and> (wd \<in> {3, 4} \<and> get_free_time isoparse tz now events = Inr free \<and> i < 7 \<and>
        sl \<in> set (free ! i) \<and> hour (fst sl) = 15 \<and> minute (fst sl) = 45 \<longrightarrow>
        afternoon_fill wd sl =
          [\<lparr>summary = ''Physics'', colorId = 11,
            req_start = at_clock now i 16 45, req_end = at_clock now i 18 15\<rparr>,
           \<lparr>summary = ''Calculus and Vectors'', colorId = 7,
            req_start = at_clock now i 18 15, req_end = at_clock now i 19 45\<rparr>])
   \<and> (allocator_weekday nows i \<in> {3, 4} \<and> get_free_time isoparse tz now [] = Inr free' \<and>
        i < 7 \<longrightarrow>
        afternoon_sessions (allocator_weekday nows i) (free' ! i) =
          [\<lparr>summary = ''Physics'', colorId = 11,
            req_start = at_clock now i 16 45, req_end = at_clock now i 18 15\<rparr>,
           \<lparr>summary = ''Calculus and Vectors'', colorId = 7,
            req_start = at_clock now i 18 15, req_end = at_clock now i 19 45\<rparr>])"
proof (intro conjI impI)
  assume "wd \<in> {3, 4}"
  then show "afternoon_fill wd sl =
        (if hour (fst sl) = 15 \<and> minute (fst sl) = 45
         then (let anchor = (fst sl)\<lparr>hour := 16, minute := 45\<rparr>
               in if dt_le (add_timedelta anchor SESSION_DURATION) (snd sl)
                  then add_event anchor (add_timedelta anchor SESSION_DURATION) (SUBJECTS ! 0)
                       # (if dt_le (add_timedelta (add_timedelta anchor SESSION_DURATION)
                                      SESSION_DURATION) (snd sl)
                          then [add_event (add_timedelta anchor SESSION_DURATION)
                                  (add_timedelta (add_timedelta anchor SESSION_DURATION)
                                     SESSION_DURATION)
                                  (SUBJECTS ! 1)]
                          else [])
                  else [])
         else [])"
    unfolding afternoon_fill_def while_fill_from_0 Let_def by simp
next
  assume a: "wd \<in> {3, 4} \<and> get_free_time isoparse tz now events = Inr free \<and> i < 7 \<and>
        sl \<in> set (free ! i) \<and> hour (fst sl) = 15 \<and> minute (fst sl) = 45"
  then have "sl = afternoon_window now i"
    using surviving_afternoon[of isoparse tz now events free i sl] by blast
  with a show "afternoon_fill wd sl =
          [\<lparr>summary = ''Physics'', colorId = 11,
            req_start = at_clock now i 16 45, req_end = at_clock now i 18 15\<rparr>,
           \<lparr>summary = ''Calculus and Vectors'', colorId = 7,
            req_start = at_clock now i 18 15, req_end = at_clock now i 19 45\<rparr>]"
    using afternoon_fill_thu_fri[of wd now i] by blast
next
  assume a: "allocator_weekday nows i \<in> {3, 4} \<and> get_free_time isoparse tz now [] = Inr free' \<and>
        i < 7"
  then have "free' ! i = [morning_window now i, afternoon_window now i]"
    using get_free_time_empty_day by blast
  with a show "afternoon_sessions (allocator_weekday nows i) (free' ! i) =
          [\<lparr>summary = ''Physics'', colorId = 11,
            req_start = at_clock now i 16 45, req_end = at_clock now i 18 15\<rparr>,
           \<lparr>summary = ''Calculus and Vectors'', colorId = 7,
            req_start = at_clock now i 18 15, req_end = at_clock now i 19 45\<rparr>]"
    using afternoon_fill_thu_fri[of "allocator_weekday nows i" now i]
    by (simp only: afternoon_sessions_both)
qed

theorem thursday_friday_rule_witness:
  "allocator_weekday tuesday_clock 2 = 3 \<and>
   hour (fst (at_clock tuesday_now 2 15 45, at_clock tuesday_now 2 21 30)) = 15 \<and>
   minute (fst (at_clock tuesday_now 2 15 45, at_clock tuesday_now 2 21 30)) = 45 \<and>
   (\<exists>free free'.
      get_free_time example_isoparse example_tz tuesday_now [wednesday_event] = Inr free \<and>
      (at_clock tuesday_now 2 15 45, at_clock tuesday_now 2 21 30) \<in> set (free ! 2) \<and>
      afternoon_fill 3 (at_clock tuesday_now 2 15 45, at_clock tuesday_now 2 21 30) =
          [\<lparr>summary = ''Physics'', colorId = 11,
            req_start = at_clock tuesday_now 2 16 45, req_end = at_clock tuesday_now 2 18 15\<rparr>,
           \<lparr>summary = ''Calculus and Vectors'', colorId = 7,
            req_start = at_clock tuesday_now 2 18 15, req_end = at_clock tuesday_now 2 19 45\<rparr>] \<and>
      get_free_time example_isoparse example_tz tuesday_now [] = Inr free' \<and>
      afternoon_sessions (allocator_weekday tuesday_clock 2) (free' ! 2) =
          [\<lparr>summary = ''Physics'', colorId = 11,
            req_start = at_clock tuesday_now 2 16 45, req_end = at_clock tuesday_now 2 18 15\<rparr>,
           \<lparr>summary = ''Calculus and Vectors'', colorId = 7,
            req_start = at_clock tuesday_now 2 18 15, req_end = at_clock tuesday_now 2 19 45\<rparr>])"
proof -
  let ?sl = "(at_clock tuesday_now 2 15 45, at_clock tuesday_now 2 21 30)"
  obtain free where
    g: "get_free_time example_isoparse example_tz tuesday_now [wednesday_event] = Inr free"
    and "afternoon_window tuesday_now 2 \<in> set (free ! 2)"
    using example_calculator_run by blast
  then have m: "?sl \<in> set (free ! 2)"
    by (simp add: afternoon_window_def)
  obtain free' where
    g': "get_free_time example_isoparse example_tz tuesday_now [] = Inr free'"
    using get_free_time_no_events by blast
  have h: "hour (fst ?sl) = 15" "minute (fst ?sl) = 45" and lt: "(2::nat) < 7"
    and wd: "(3::nat) \<in> {3, 4}"
    by simp_all
  have w: "allocator_weekday tuesday_clock 2 = 3"
    by (rule tuesday_clock_weekdays(2))
  then have wd': "allocator_weekday tuesday_clock 2 \<in> {3, 4}"
    by simp
  note rule = thursday_friday_rule[of 3 ?sl example_isoparse example_tz tuesday_now
      "[wednesday_event]" free 2 tuesday_clock free']
  have c2: "afternoon_fill 3 ?sl =
          [\<lparr>summary = ''Physics'', colorId = 11,
            req_start = at_clock tuesday_now 2 16 45, req_end = at_clock tuesday_now 2 18 15\<rparr>,
           \<lparr>summary = ''Calculus and Vectors'', colorId = 7,
            req_start = at_clock tuesday_now 2 18 15, req_end = at_clock tuesday_now 2 19 45\<rparr>]"
    by (rule mp[OF conjunct1[OF conjunct2[OF rule]]]) (intro conjI wd g lt m h)
  have c3: "afternoon_sessions (allocator_weekday tuesday_clock 2) (free' ! 2) =
          [\<lparr>summary = ''Physics'', colorId = 11,
            req_start = at_clock tuesday_now 2 16 45, req_end = at_clock tuesday_now 2 18 15\<rparr>,
           \<lparr>summary = ''Calculus and Vectors'', colorId = 7,
            req_start = at_clock tuesday_now 2 18 15, req_end = at_clock tuesday_now 2 19 45\<rparr>]"
    by (rule mp[OF conjunct2[OF conjunct2[OF rule]]]) (intro conjI wd' g' lt)
  from g m c2 g' c3 have "\<exists>free free'.
      get_free_time example_isoparse example_tz tuesday_now [wednesday_event] = Inr free \<and>
      ?sl \<in> set (free ! 2) \<and>
      afternoon_fill 3 ?sl =
          [\<lparr>summary = ''Physics'', colorId = 11,
            req_start = at_clock tuesday_now 2 16 45, req_end = at_clock tuesday_now 2 18 15\<rparr>,
           \<lparr>summary = ''Calculus and Vectors'', colorId = 7,
            req_start = at_clock tuesday_now 2 18 15, req_end = at_clock tuesday_now 2 19 45\<rparr>] \<and>
      get_free_time example_isoparse example_tz tuesday_now [] = Inr free' \<and>
      afternoon_sessions (allocator_weekday tuesday_clock 2) (free' ! 2) =
          [\<lparr>summary = ''Physics'', colorId = 11,
            req_start = at_clock tuesday_now 2 16 45, req_end = at_clock tuesday_now 2 18 15\<rparr>,
           \<lparr>summary = ''Calculus and Vectors'', colorId = 7,
            req_start = at_clock tuesday_now 2 18 15, req_end = at_clock tuesday_now 2 19 45\<rparr>]"
    by blast
  with w h show ?thesis by blast
qed

subsection \<open>The standard afternoon rule\<close>

lemma spec_standard_afternoon_window:
  "spec_standard_afternoon (afternoon_window now k) =
     [\<lparr>summary = ''Physics'', colorId = 11,
        req_start = at_clock now k 15 45, req_end = at_clock now k 17 15\<rparr>,
       \<lparr>summary = ''Calculus and Vectors'', colorId = 7,
        req_start = at_clock now k 17 15, req_end = at_clock now k 18 45\<rparr>,
       \<lparr>summary = ''English'', colorId = 8,
        req_start = at_clock now k 18 45, req_end = at_clock now k 20 15\<rparr>,
       \<lparr>summary = ''Data Management'', colorId = 7,
        req_start = at_clock now k 20 15, req_end = at_clock now k 21 15\<rparr>]"
  by (simp add: spec_standard_afternoon_def fill_simps)

text \<open>
  Claim C4. On a day whose weekday is not Thursday or Friday, on every afternoon interval
  that survives the calculator, the allocator does what the rule says: the 90-minute
  sessions of the subjects 0, 1 and 2 back to back from the start of the interval, each
  placed only if it ends no later than the end of the interval, and the 60-minute session
  of subject 3 if and only if all three were placed and it ends no later than the end of
  the interval. On such an interval all four are placed: 15:45 to 17:15, 17:15 to 18:45,
  18:45 to 20:15 and 20:15 to 21:15.
\<close>

theorem standard_afternoon_rule:
  assumes "wd \<notin> {3, 4}"
    and "get_free_time isoparse tz now events = Inr free"
    and "i < 7"
    and "sl \<in> set (free ! i)"
    and "hour (fst sl) = 15 \<and> minute (fst sl) = 45"
  shows "afternoon_fill wd sl = spec_standard_afternoon sl \<and>
         afternoon_fill wd sl =
     [\<lparr>summary = ''Physics'', colorId = 11,
        req_start = at_clock now i 15 45, req_end = at_clock now i 17 15\<rparr>,
       \<lparr>summary = ''Calculus and Vectors'', colorId = 7,
        req_start = at_clock now i 17 15, req_end = at_clock now i 18 45\<rparr>,
       \<lparr>summary = ''English'', colorId = 8,
        req_start = at_clock now i 18 45, req_end = at_clock now i 20 15\<rparr>,
       \<lparr>summary = ''Data Management'', colorId = 7,
        req_start = at_clock now i 20 15, req_end = at_clock now i 21 15\<rparr>]"
proof -
  have "sl = afternoon_window now i"
    using assms(2-5) surviving_afternoon by blast
  then show ?thesis
    using afternoon_fill_standard[OF assms(1), of now i]
    by (simp only: spec_standard_afternoon_window)
qed

theorem standard_afternoon_rule_witness:
  "(1::nat) \<notin> {3, 4} \<and>
   hour (fst (at_clock tuesday_now 0 15 45, at_clock tuesday_now 0 21 30)) = 15 \<and>
   minute (fst (at_clock tuesday_now 0 15 45, at_clock tuesday_now 0 21 30)) = 45 \<and>
   (\<exists>free.
      get_free_time example_isoparse example_tz tuesday_now [wednesday_event] = Inr free \<and>
      (at_clock tuesday_now 0 15 45, at_clock tuesday_now 0 21 30) \<in> set (free ! 0)) \<and>
   afternoon_fill 1 (at_clock tuesday_now 0 15 45, at_clock tuesday_now 0 21 30) =
     spec_standard_afternoon (at_clock tuesday_now 0 15 45, at_clock tuesday_now 0 21 30) \<and>
   afternoon_fill 1 (at_clock tuesday_now 0 15 45, at_clock tuesday_now 0 21 30) =
     [\<lparr>summary = ''Physics'', colorId = 11,
        req_start = at_clock tuesday_now 0 15 45, req_end = at_clock tuesday_now 0 17 15\<rparr>,
       \<lparr>summary = ''Calculus and Vectors'', colorId = 7,
        req_start = at_clock tuesday_now 0 17 15, req_end = at_clock tuesday_now 0 18 45\<rparr>,
       \<lparr>summary = ''English'', colorId = 8,
        req_start = at_clock tuesday_now 0 18 45, req_end = at_clock tuesday_now 0 20 15\<rparr>,
       \<lparr>summary = ''Data Management'', colorId = 7,
        req_start = at_clock tuesday_now 0 20 15, req_end = at_clock tuesday_now 0 21 15\<rparr>]"
proof -
  let ?sl = "(at_clock tuesday_now 0 15 45, at_clock tuesday_now 0 21 30)"
  obtain free where
    g: "get_free_time example_isoparse example_tz tuesday_now [wednesday_event] = Inr free"
    and "afternoon_window tuesday_now 0 \<in> set (free ! 0)"
    using example_calculator_run by blast
  then have m: "?sl \<in> set (free ! 0)"
    by (simp add: afternoon_window_def)
  have wd: "(1::nat) \<notin> {3, 4}" and lt: "(0::nat) < 7"
    and h: "hour (fst ?sl) = 15 \<and> minute (fst ?sl) = 45"
    by simp_all
  note c = standard_afternoon_rule[OF wd g lt m h]
  from g m have "\<exists>free.
      get_free_time example_isoparse example_tz tuesday_now [wednesday_event] = Inr free \<and>
      ?sl \<in> set (free ! 0)"
    by blast
  with wd h c show ?thesis by blast
qed

text \<open>
  Remark. An interval that starts at 15:45 and is shorter than 90 minutes is never produced
  by the calculator. On such an interval the two rules would differ: the code tests only
  that the 60-minute session ends by the end of the interval, not that the three
  90-minute sessions were placed.
\<close>

lemma afternoon_fill_short_interval:
  "afternoon_fill 1 (at_clock now k 15 45, at_clock now k 16 50) =
     [\<lparr>summary = ''Data Management'', colorId = 7,
       req_start = at_clock now k 15 45, req_end = at_clock now k 16 45\<rparr>]"
  "spec_standard_afternoon (at_clock now k 15 45, at_clock now k 16 50) = []"
  by (simp_all add: afternoon_fill_def spec_standard_afternoon_def dt_le_at_clock
      add_event_def SUBJECTS_def Let_def add_session_at_clock[of 15 45 17 15]
      add_data_management_at_clock[of 15 45 16 45])

subsection \<open>Tuesday afternoon with an empty busy list\<close>

text \<open>
  Claim C3, as amended. With an empty busy list, on a Tuesday the afternoon window (15:45
  to 21:30) yields exactly four sessions: the three 90-minute sessions of the subjects 0, 1
  and 2 from 15:45 to 20:15, and the 60-minute session of subject 3 from 20:15 to 21:15,
  which ends before the end of the window.
\<close>

theorem tuesday_afternoon_empty_busy_list:
  assumes "allocator_weekday nows i = 1"
    and "i < 7"
    and "get_free_time isoparse tz now [] = Inr free"
  shows "afternoon_sessions (allocator_weekday nows i) (free ! i) =
     [\<lparr>summary = ''Physics'', colorId = 11,
        req_start = at_clock now i 15 45, req_end = at_clock now i 17 15\<rparr>,
       \<lparr>summary = ''Calculus and Vectors'', colorId = 7,
        req_start = at_clock now i 17 15, req_end = at_clock now i 18 45\<rparr>,
       \<lparr>summary = ''English'', colorId = 8,
        req_start = at_clock now i 18 45, req_end = at_clock now i 20 15\<rparr>,
       \<lparr>summary = ''Data Management'', colorId = 7,
        req_start = at_clock now i 20 15, req_end = at_clock now i 21 15\<rparr>]"
proof -
  have day: "free ! i = [morning_window now i, afternoon_window now i]"
    using assms(3,2) by (rule get_free_time_empty_day)
  have "allocator_weekday nows i \<notin> {3, 4}"
    using assms(1) by simp
  then show ?thesis
    unfolding day afternoon_sessions_both by (rule afternoon_fill_standard)
qed

theorem tuesday_afternoon_empty_busy_list_witness:
  "allocator_weekday tuesday_clock 0 = 1 \<and>
   (\<exists>free. get_free_time example_isoparse example_tz tuesday_now [] = Inr free \<and>
      afternoon_sessions (allocator_weekday tuesday_clock 0) (free ! 0) =
     [\<lparr>summary = ''Physics'', colorId = 11,
        req_start = at_clock tuesday_now 0 15 45, req_end = at_clock tuesday_now 0 17 15\<rparr>,
       \<lparr>summary = ''Calculus and Vectors'', colorId = 7,
        req_start = at_clock tuesday_now 0 17 15, req_end = at_clock tuesday_now 0 18 45\<rparr>,
       \<lparr>summary = ''English'', colorId = 8,
        req_start = at_clock tuesday_now 0 18 45, req_end = at_clock tuesday_now 0 20 15\<rparr>,
       \<lparr>summary = ''Data Management'', colorId = 7,
        req_start = at_clock tuesday_now 0 20 15, req_end = at_clock tuesday_now 0 21 15\<rparr>])"
proof -
  obtain free where
    g: "get_free_time example_isoparse example_tz tuesday_now [] = Inr free"
    using get_free_time_no_events by blast
  have w: "allocator_weekday tuesday_clock 0 = 1"
    by (rule tuesday_clock_weekdays(1))
  have lt: "(0::nat) < 7" by simp
  note c = tuesday_afternoon_empty_busy_list[OF w lt g]
  with g w show ?thesis by blast
qed

text \<open>
  The claim as stated, three sessions and no 60-minute session, fails: on Tuesday
  2024-11-19 with an empty busy list the allocator emits six requests, four of them in the
  afternoon, the last being the 60-minute session of subject 3 from 20:15 to 21:15. (Three
  sessions of 90 minutes from 15:45 end at 20:15, not at 21:15.)
\<close>

theorem tuesday_afternoon_counterexample:
  "allocator_weekday tuesday_clock 0 = 1 \<and>
   day_sessions example_isoparse example_tz tuesday_now tuesday_clock [] 0 =
     Inr [\<lparr>summary = ''Physics'', colorId = 11,
        req_start = at_clock tuesday_now 0 4 30, req_end = at_clock tuesday_now 0 6 0\<rparr>,
       \<lparr>summary = ''Calculus and Vectors'', colorId = 7,
        req_start = at_clock tuesday_now 0 6 0, req_end = at_clock tuesday_now 0 7 30\<rparr>,
       \<lparr>summary = ''Physics'', colorId = 11,
        req_start = at_clock tuesday_now 0 15 45, req_end = at_clock tuesday_now 0 17 15\<rparr>,
       \<lparr>summary = ''Calculus and Vectors'', colorId = 7,
        req_start = at_clock tuesday_now 0 17 15, req_end = at_clock tuesday_now 0 18 45\<rparr>,
       \<lparr>summary = ''English'', colorId = 8,
        req_start = at_clock tuesday_now 0 18 45, req_end = at_clock tuesday_now 0 20 15\<rparr>,
       \<lparr>summary = ''Data Management'', colorId = 7,
        req_start = at_clock tuesday_now 0 20 15, req_end = at_clock tuesday_now 0 21 15\<rparr>]"
proof -
  have "(1::nat) \<notin> {3, 4}" by simp
  then show ?thesis
    using afternoon_fill_standard[of 1 tuesday_now 0]
    by (simp add: day_sessions_def get_free_time_no_events tuesday_clock_weekdays(1)
        nth_map_upt_7 schedule_day_def morning_sessions_both afternoon_sessions_both
        morning_fill_morning_window)
qed

subsection \<open>Sessions lie within free intervals\<close>

lemma morning_fill_within:
  "r \<in> set (morning_fill (morning_window now i)) \<Longrightarrow>
   dt_le (fst (morning_window now i)) (req_start r) \<and>
   dt_le (req_end r) (snd (morning_window now i))"
  unfolding morning_fill_morning_window
  by (auto simp: morning_window_def dt_le_at_clock)

lemma afternoon_fill_within:
  "r \<in> set (afternoon_fill wd (afternoon_window now i)) \<Longrightarrow>
   dt_le (fst (afternoon_window now i)) (req_start r) \<and>
   dt_le (req_end r) (snd (afternoon_window now i))"
proof (cases "wd \<in> {3, 4}")
  case True
  assume "r \<in> set (afternoon_fill wd (afternoon_window now i))"
  then show ?thesis
    unfolding afternoon_fill_thu_fri[OF True]
    by (auto simp: afternoon_window_def dt_le_at_clock)
next
  case False
  assume "r \<in> set (afternoon_fill wd (afternoon_window now i))"
  then show ?thesis
    unfolding afternoon_fill_standard[OF False]
    by (auto simp: afternoon_window_def dt_le_at_clock)
qed

lemma schedule_day_within:
  assumes "r \<in> set (schedule_day wd slots)"
    and "set slots \<subseteq> {morning_window now i, afternoon_window now i}"
  shows "\<exists>f\<in>set slots. dt_le (fst f) (req_start r) \<and> dt_le (req_end r) (snd f)"
proof -
  from assms(1) obtain f where f: "f \<in> set slots"
    and r: "r \<in> set (morning_fill f) \<or> r \<in> set (afternoon_fill wd f)"
    by (auto simp: schedule_day_def morning_sessions_def afternoon_sessions_def)
  from f assms(2) have "f = morning_window now i \<or> f = afternoon_window now i"
    by blast
  then have "dt_le (fst f) (req_start r) \<and> dt_le (req_end r) (snd f)"
  proof
    assume m: "f = morning_window now i"
    with r have "r \<in> set (morning_fill (morning_window now i))"
      by (simp add: afternoon_fill_morning_window)
    then show ?thesis unfolding m by (rule morning_fill_within)
  next
    assume a: "f = afternoon_window now i"
    with r have "r \<in> set (afternoon_fill wd (afternoon_window now i))"
      by (simp add: morning_fill_afternoon_window)
    then show ?thesis unfolding a by (rule afternoon_fill_within)
  qed
  with f show ?thesis by blast
qed

text \<open>
  Claim C1. Every session emitted by the allocator lies within a free interval that the
  calculator produced for the day of its iteration: for every list of fetched events and
  every emitted request \<open>r\<close> there are a day \<open>i\<close> in whose iteration \<open>r\<close> is emitted and an
  interval \<open>f\<close> in that day's free-slot list with \<open>start of f \<le> start of r\<close> and
  \<open>end of r \<le> end of f\<close>, and \<open>f\<close> overlaps the busy interval of no event of the input.
\<close>

theorem sessions_within_free_intervals:
  assumes "schedule_study_sessions isoparse tz now nows events = Inr out"
    and "r \<in> set out"
  shows "\<exists>free i. get_free_time isoparse tz now events = Inr free \<and> i < 7 \<and>
           r \<in> set (schedule_day (allocator_weekday nows i) (free ! i)) \<and>
           (\<exists>f\<in>set (free ! i).
              dt_le (fst f) (req_start r) \<and> dt_le (req_end r) (snd f) \<and>
              (\<forall>e\<in>set events. \<forall>bs be.
                 read_event isoparse tz e = Inr (Some (bs, be)) \<longrightarrow>
                 \<not> (dt_less (fst f) be \<and> dt_less bs (snd f))))"
proof -
  from assms(1) obtain free where g: "get_free_time isoparse tz now events = Inr free"
    and out: "out = concat (map (\<lambda>day_index.
                 schedule_day (allocator_weekday nows day_index) (free ! day_index)) [0..<7])"
    by (auto simp: schedule_study_sessions_def split: sum.splits)
  from assms(2) obtain i where i: "i < 7"
    and r: "r \<in> set (schedule_day (allocator_weekday nows i) (free ! i))"
    unfolding out by auto
  have sub: "set (free ! i) \<subseteq> {morning_window now i, afternoon_window now i}"
    using surviving_window[OF g i] by blast
  from schedule_day_within[OF r sub] obtain f where f: "f \<in> set (free ! i)"
    and w: "dt_le (fst f) (req_start r) \<and> dt_le (req_end r) (snd f)"
    by blast
  have nb: "\<not> blocked isoparse tz events f"
    using surviving_window[OF g i f] by blast
  have "\<forall>e\<in>set events. \<forall>bs be.
          read_event isoparse tz e = Inr (Some (bs, be)) \<longrightarrow>
          \<not> (dt_less (fst f) be \<and> dt_less bs (snd f))"
    using not_blocked_no_overlap[OF nb] by (auto simp: overlaps_def)
  with g i r f w show ?thesis by blast
qed

theorem sessions_within_free_intervals_witness:
  "\<exists>out. schedule_study_sessions example_isoparse example_tz tuesday_now tuesday_clock
            [wednesday_event] = Inr out \<and>
     \<lparr>summary = ''Physics'', colorId = 11,
      req_start = at_clock tuesday_now 0 4 30, req_end = at_clock tuesday_now 0 6 0\<rparr>
       \<in> set out \<and>
     (\<exists>free i. get_free_time example_isoparse example_tz tuesday_now [wednesday_event]
                 = Inr free \<and> i < 7 \<and>
        (\<exists>f\<in>set (free ! i).
           dt_le (fst f) (at_clock tuesday_now 0 4 30) \<and>
           dt_le (at_clock tuesday_now 0 6 0) (snd f)))"
proof -
  let ?r = "\<lparr>summary = ''Physics'', colorId = 11,
             req_start = at_clock tuesday_now 0 4 30, req_end = at_clock tuesday_now 0 6 0\<rparr>"
  obtain free where
    g: "get_free_time example_isoparse example_tz tuesday_now [wednesday_event] = Inr free"
    and m: "morning_window tuesday_now 0 \<in> set (free ! 0)"
    using example_calculator_run by blast
  let ?out = "concat (map (\<lambda>day_index.
                 schedule_day (allocator_weekday tuesday_clock day_index) (free ! day_index))
               [0..<7])"
  have s: "schedule_study_sessions example_isoparse example_tz tuesday_now tuesday_clock
             [wednesday_event] = Inr ?out"
    by (simp add: schedule_study_sessions_def g)
  have "?r \<in> set (morning_fill (morning_window tuesday_now 0))"
    by (simp add: morning_fill_morning_window)
  with m have "?r \<in> set (schedule_day (allocator_weekday tuesday_clock 0) (free ! 0))"
    by (auto simp: schedule_day_def morning_sessions_def)
  moreover have "(0::nat) \<in> set [0..<7]" by simp
  ultimately have r: "?r \<in> set ?out"
    unfolding set_concat set_map by blast
  from sessions_within_free_intervals[OF s r]
  have "\<exists>free i. get_free_time example_isoparse example_tz tuesday_now [wednesday_event]
                 = Inr free \<and> i < 7 \<and>
        (\<exists>f\<in>set (free ! i).
           dt_le (fst f) (at_clock tuesday_now 0 4 30) \<and>
           dt_le (at_clock tuesday_now 0 6 0) (snd f))"
    by (simp only: session.simps) blast
  with s r show ?thesis by blast
qed

end
